theory Spec2Isabelle
  imports Main
begin

section \<open>JavaScript values used by the chat component\<close>

text \<open>
  The component under verification is \<open>Chat\<close> of \<open>src/components/chat-simple.tsx\<close>.
  Strings are lists of code units; the model reads a \<open>char\<close> as a code unit below 256.
  An optional or nullable value (\<open>string | null\<close>, \<open>string | undefined\<close>, an optional
  field of an event) is an \<open>option\<close>, with \<open>None\<close> for \<open>null\<close> and \<open>undefined\<close>.

  \<open>truthy\<close> is JavaScript's truthiness of such a value: \<open>null\<close>, \<open>undefined\<close> and the
  empty string are falsy. \<open>js_or\<close>, \<open>or_string\<close> and \<open>or_number\<close> are the operator
  \<open>||\<close> at the three types the source uses it at (for a number, \<open>0\<close> is falsy).
\<close>

definition truthy :: "string option \<Rightarrow> bool" where
  "truthy v = (case v of None \<Rightarrow> False | Some x \<Rightarrow> x \<noteq> [])"

definition js_or :: "string option \<Rightarrow> string option \<Rightarrow> string option" where
  "js_or a b = (if truthy a then a else b)"

definition or_string :: "string option \<Rightarrow> string \<Rightarrow> string" where
  "or_string a b = (case a of None \<Rightarrow> b | Some x \<Rightarrow> if x = [] then b else x)"

definition or_number :: "int option \<Rightarrow> int \<Rightarrow> int" where
  "or_number a b = (case a of None \<Rightarrow> b | Some x \<Rightarrow> if x = 0 then b else x)"

text \<open>
  \<open>String.prototype.trim\<close> removes white space and line terminators from both ends.
  Of those, the code units below 256 are TAB, LF, VT, FF, CR, SP and NBSP.
\<close>

definition isWhiteSpace :: "char \<Rightarrow> bool" where
  "isWhiteSpace c =
     (c = CHR 0x09 \<or> c = CHR 0x0A \<or> c = CHR 0x0B \<or> c = CHR 0x0C \<or> c = CHR 0x0D \<or>
      c = CHR 0x20 \<or> c = CHR 0xA0)"

definition trim :: "string \<Rightarrow> string" where
  "trim t = rev (dropWhile isWhiteSpace (rev (dropWhile isWhiteSpace t)))"

section \<open>Data model\<close>

text \<open>
  \<open>ChatMessage\<close> is declared in \<open>@/types/chat-message\<close> and the two event payloads
  in \<open>@/lib/socketio-manager\<close>; the records hold the fields that \<open>chat-simple.tsx\<close>
  reads and writes, optional where the source guards them with \<open>||\<close> or leaves them
  out of an object literal.
\<close>

record ChatMessage =
  m_id :: string
  m_name :: string
  m_text :: string
  m_senderId :: string
  m_roomId :: "string option"
  m_createdAt :: int
  m_source :: "string option"
  m_thought :: "string option"
  m_actions :: "string list option"
  m_isLoading :: bool

record MessageBroadcastData =
  d_id :: "string option"
  d_senderName :: "string option"
  d_text :: string
  d_senderId :: string
  d_roomId :: "string option"
  d_channelId :: "string option"
  d_createdAt :: "int option"
  d_source :: "string option"
  d_thought :: "string option"
  d_actions :: "string list option"

record ControlMessageData =
  action :: string

datatype connection_status = Connecting | Connected | ConnectionError

datatype server_status = ServerChecking | Online | Offline

datatype agent_status = AgentChecking | Ready | AgentError

text \<open>
  What the component does to the outside is kept as logs and a timer queue: the calls
  on the transport (\<open>socketIOManager\<close>), the REST requests, and the callbacks armed with
  \<open>setTimeout\<close>, each with the time it is due.
\<close>

datatype transport_call =
    Initialize "string option" string
  | On string
  | Off string
  | JoinRoom string
  | LeaveRoom string
  | JoinChannel string string
  | LeaveChannel string
  | SendChannelMessage string string string

datatype request =
    AddAgent string "string option"
  | GetRoomMemories string string nat

datatype timer = SendTimeout | CheckConnection

text \<open>
  The state: the \<open>useState\<close> cells and the \<open>useRef\<close> latch under the source's names,
  then the world the component acts on. \<open>attached\<close> is the room of the listener effect
  whose handlers are subscribed (\<open>None\<close> when no handler is subscribed), \<open>clock\<close> is
  \<open>Date.now()\<close>, \<open>localStorage\<close> is the entry \<open>elizaHowUserEntity\<close>.
\<close>

record chat =
  userEntity :: "string option"
  messages :: "ChatMessage list"
  input :: string
  inputDisabled :: bool
  roomId :: "string option"
  isLoadingHistory :: bool
  isAgentThinking :: bool
  connectionStatus :: connection_status
  serverStatus :: server_status
  agentStatus :: agent_status
  initStartedRef :: bool
  attached :: "string option"
  clock :: int
  timers :: "(int \<times> timer) list"
  transportLog :: "transport_call list"
  requests :: "request list"
  localStorage :: "string option"

text \<open>
  The environment: \<open>NEXT_PUBLIC_AGENT_ID\<close> and the module constant \<open>CHAT_SOURCE\<close>
  (a host name computed when the module loads).
\<close>

record config =
  agentId :: "string option"
  CHAT_SOURCE :: string

definition centralChannelId :: string where
  "centralChannelId = ''00000000-0000-0000-0000-000000000000''"

definition serverId :: string where
  "serverId = ''00000000-0000-0000-0000-000000000000''"

definition USER_NAME :: string where
  "USER_NAME = ''User''"

text \<open>The state of a freshly mounted component, at time \<open>t\<close> and with a given storage.\<close>

definition mounted :: "int \<Rightarrow> string option \<Rightarrow> chat" where
  "mounted t stored =
     \<lparr> userEntity = None, messages = [], input = [], inputDisabled = False,
       roomId = None, isLoadingHistory = True, isAgentThinking = False,
       connectionStatus = Connecting, serverStatus = ServerChecking,
       agentStatus = AgentChecking, initStartedRef = False, attached = None,
       clock = t, timers = [], transportLog = [], requests = [],
       localStorage = stored \<rparr>"

section \<open>Timers\<close>

definition setTimeout :: "timer \<Rightarrow> int \<Rightarrow> chat \<Rightarrow> chat" where
  "setTimeout cb delay s = s\<lparr>timers := timers s @ [(clock s + delay, cb)]\<rparr>"

section \<open>Mount effects\<close>

text \<open>
  The first effect reads the stored identity or creates one from \<open>uuidv4()\<close>, whose
  result is the argument \<open>newEntity\<close>.
\<close>

definition initUserEntity :: "string \<Rightarrow> chat \<Rightarrow> chat" where
  "initUserEntity newEntity s =
     (if truthy (localStorage s) then s\<lparr>userEntity := localStorage s\<rparr>
      else s\<lparr>localStorage := Some newEntity, userEntity := Some newEntity\<rparr>)"

datatype ping_result = PingTrue | PingFalse | PingThrows

definition checkServer :: "ping_result \<Rightarrow> chat \<Rightarrow> chat" where
  "checkServer r s =
     (case r of
        PingTrue \<Rightarrow> s\<lparr>serverStatus := Online\<rparr>
      | PingFalse \<Rightarrow> s\<lparr>serverStatus := Offline, connectionStatus := ConnectionError\<rparr>
      | PingThrows \<Rightarrow> s\<lparr>serverStatus := Offline, connectionStatus := ConnectionError\<rparr>)"

text \<open>
  The room effect. \<open>generateQueryRoomId\<close> belongs to \<open>@/lib/uuid-utils\<close>, another
  module: its result is the argument \<open>queryRoomId\<close>.
\<close>

definition generateRoomId :: "config \<Rightarrow> string \<Rightarrow> string \<Rightarrow> chat \<Rightarrow> chat" where
  "generateRoomId cfg query queryRoomId s =
     (if \<not> truthy (userEntity s) \<or> \<not> truthy (agentId cfg) then s
      else if query \<noteq> [] then s\<lparr>roomId := Some queryRoomId\<rparr>
      else s\<lparr>roomId := Some (or_string (agentId cfg) [] @ ''-'' @ or_string (userEntity s) [])\<rparr>)"

section \<open>The connect sequence\<close>

text \<open>
  \<open>initializeConnection\<close> runs up to the registration request, waits for it, and goes on
  with the transport. The outcome of the request is a value: an OK response, a non-OK
  response (whose body is read with \<open>text()\<close>, \<open>None\<close> when that read fails), or a
  thrown error. The transport belongs to \<open>@/lib/socketio-manager\<close>, another module:
  whether its \<open>initialize\<close> throws and what \<open>isSocketConnected\<close> answers are
  arguments.
\<close>

datatype add_agent_result = ResponseOk | ResponseNotOk "string option" | FetchThrows

definition checkConnection :: "bool \<Rightarrow> chat \<Rightarrow> chat" where
  "checkConnection isSocketConnected s =
     (if isSocketConnected then s\<lparr>connectionStatus := Connected\<rparr>
      else setTimeout CheckConnection 1000 s)"

definition initializeConnection_begin :: "config \<Rightarrow> chat \<Rightarrow> chat" where
  "initializeConnection_begin cfg s =
     s\<lparr>connectionStatus := Connecting, agentStatus := AgentChecking,
       requests := requests s @ [AddAgent centralChannelId (agentId cfg)]\<rparr>"

definition addAgentStatus :: "add_agent_result \<Rightarrow> agent_status" where
  "addAgentStatus r =
     (case r of
        ResponseOk \<Rightarrow> Ready
      | ResponseNotOk (Some errorText) \<Rightarrow> Ready
      | ResponseNotOk None \<Rightarrow> AgentError
      | FetchThrows \<Rightarrow> AgentError)"

definition initializeConnection_resume :: "add_agent_result \<Rightarrow> bool \<Rightarrow> bool \<Rightarrow> chat \<Rightarrow> chat" where
  "initializeConnection_resume r initializeThrows isSocketConnected s =
     (let s1 = s\<lparr>agentStatus := addAgentStatus r\<rparr>;
          s2 = s1\<lparr>transportLog := transportLog s1 @ [Initialize (userEntity s1) serverId]\<rparr>
      in if initializeThrows then s2\<lparr>connectionStatus := ConnectionError\<rparr>
         else checkConnection isSocketConnected s2)"

definition initializeConnection ::
  "config \<Rightarrow> add_agent_result \<Rightarrow> bool \<Rightarrow> bool \<Rightarrow> chat \<Rightarrow> chat" where
  "initializeConnection cfg r initializeThrows isSocketConnected s =
     initializeConnection_resume r initializeThrows isSocketConnected
       (initializeConnection_begin cfg s)"

text \<open>The effect that starts the sequence, with its guard.\<close>

definition connectionEffect :: "config \<Rightarrow> chat \<Rightarrow> chat" where
  "connectionEffect cfg s =
     (if \<not> truthy (userEntity s) \<or> \<not> truthy (agentId cfg) \<or> serverStatus s \<noteq> Online then s
      else initializeConnection_begin cfg s)"

section \<open>The socket event handlers\<close>

text \<open>
  The handlers close over \<open>userEntity\<close>, \<open>agentId\<close> and \<open>roomId\<close> of the render that
  subscribed them. \<open>roomId\<close> is a dependency of the subscribing effect, \<open>agentId\<close> is a
  constant of the environment, and \<open>userEntity\<close> is assigned once, by the mount effect,
  before a connection exists; the model reads the three from the state and the
  environment. The result of \<open>uuidv4()\<close> is the argument \<open>uuid\<close>.
\<close>

definition isAgentMessage :: "config \<Rightarrow> MessageBroadcastData \<Rightarrow> bool" where
  "isAgentMessage cfg d =
     (Some (d_senderId d) = agentId cfg \<or>
      d_channelId d = Some ''00000000-0000-0000-0000-000000000000'' \<or>
      d_roomId d = Some ''00000000-0000-0000-0000-000000000000'')"

definition broadcastMessage :: "config \<Rightarrow> string \<Rightarrow> MessageBroadcastData \<Rightarrow> chat \<Rightarrow> ChatMessage" where
  "broadcastMessage cfg uuid d s =
     \<lparr> m_id = or_string (d_id d) uuid,
       m_name = or_string (d_senderName d) (if isAgentMessage cfg d then ''Agent'' else ''User''),
       m_text = d_text d,
       m_senderId = d_senderId d,
       m_roomId = js_or (d_roomId d) (js_or (d_channelId d) (roomId s)),
       m_createdAt = or_number (d_createdAt d) (clock s),
       m_source = d_source d,
       m_thought = d_thought d,
       m_actions = d_actions d,
       m_isLoading = False \<rparr>"

definition handleMessageBroadcast :: "config \<Rightarrow> string \<Rightarrow> MessageBroadcastData \<Rightarrow> chat \<Rightarrow> chat" where
  "handleMessageBroadcast cfg uuid d s =
     (if Some (d_senderId d) = userEntity s then s
      else
        let s1 = s\<lparr>messages := messages s @ [broadcastMessage cfg uuid d s]\<rparr>
        in if isAgentMessage cfg d then s1\<lparr>isAgentThinking := False\<rparr> else s1)"

definition handleControlMessage :: "ControlMessageData \<Rightarrow> chat \<Rightarrow> chat" where
  "handleControlMessage c s =
     (if action c = ''disable_input'' then s\<lparr>inputDisabled := True\<rparr>
      else if action c = ''enable_input'' then s\<lparr>inputDisabled := False\<rparr>
      else s)"

definition handleMessageComplete :: "chat \<Rightarrow> chat" where
  "handleMessageComplete s = s\<lparr>isAgentThinking := False, inputDisabled := False\<rparr>"

text \<open>The effect that subscribes the handlers and joins the room and the central channel,
  and its cleanup, which leaves the room it joined.\<close>

definition setupListeners :: "chat \<Rightarrow> chat" where
  "setupListeners s =
     (case roomId s of
        None \<Rightarrow> s
      | Some r \<Rightarrow>
          if connectionStatus s \<noteq> Connected \<or> r = [] then s
          else s\<lparr>attached := Some r,
                 transportLog := transportLog s @
                   [On ''messageBroadcast'', On ''controlMessage'', On ''messageComplete'',
                    JoinRoom r, JoinChannel centralChannelId serverId]\<rparr>)"

definition cleanupListeners :: "chat \<Rightarrow> chat" where
  "cleanupListeners s =
     (case attached s of
        None \<Rightarrow> s
      | Some r \<Rightarrow>
          s\<lparr>attached := None,
            transportLog := transportLog s @
              [Off ''messageBroadcast'', Off ''controlMessage'', Off ''messageComplete'',
               LeaveRoom r, LeaveChannel ''00000000-0000-0000-0000-000000000000'']\<rparr>)"

section \<open>History\<close>

text \<open>
  The history effect issues \<open>getRoomMemories(agentId, roomId, 50)\<close> behind the latch
  \<open>initStartedRef\<close>; the promise settles later, through \<open>historyResolved\<close> (then, finally)
  or \<open>historyRejected\<close> (catch, finally).
\<close>

definition loadHistory :: "config \<Rightarrow> chat \<Rightarrow> chat" where
  "loadHistory cfg s =
     (case (roomId s, agentId cfg) of
        (Some r, Some a) \<Rightarrow>
          if r = [] \<or> a = [] \<or> connectionStatus s \<noteq> Connected \<or> initStartedRef s then s
          else s\<lparr>initStartedRef := True, isLoadingHistory := True,
                 requests := requests s @ [GetRoomMemories a r 50]\<rparr>
      | _ \<Rightarrow> s)"

definition historyResolved :: "ChatMessage list \<Rightarrow> chat \<Rightarrow> chat" where
  "historyResolved loadedMessages s = s\<lparr>messages := loadedMessages, isLoadingHistory := False\<rparr>"

definition historyRejected :: "chat \<Rightarrow> chat" where
  "historyRejected s = s\<lparr>isLoadingHistory := False\<rparr>"

section \<open>Sending\<close>

definition userMessage :: "config \<Rightarrow> string \<Rightarrow> string \<Rightarrow> chat \<Rightarrow> ChatMessage" where
  "userMessage cfg uuid messageText s =
     \<lparr> m_id = uuid,
       m_name = USER_NAME,
       m_text = messageText,
       m_senderId = or_string (userEntity s) [],
       m_roomId = roomId s,
       m_createdAt = clock s,
       m_source = Some (CHAT_SOURCE cfg),
       m_thought = None,
       m_actions = None,
       m_isLoading = False \<rparr>"

definition canSend :: "string \<Rightarrow> chat \<Rightarrow> bool" where
  "canSend messageText s =
     (trim messageText \<noteq> [] \<and> truthy (userEntity s) \<and> truthy (roomId s) \<and>
      \<not> inputDisabled s \<and> connectionStatus s = Connected)"

definition sendMessage :: "config \<Rightarrow> string \<Rightarrow> string \<Rightarrow> chat \<Rightarrow> chat" where
  "sendMessage cfg uuid messageText s =
     (if \<not> canSend messageText s then s
      else
        let s1 = s\<lparr>messages := messages s @ [userMessage cfg uuid messageText s],
                   isAgentThinking := True, inputDisabled := True\<rparr>;
            s2 = s1\<lparr>transportLog := transportLog s1 @
                   [SendChannelMessage messageText ''00000000-0000-0000-0000-000000000000''
                      (CHAT_SOURCE cfg)]\<rparr>
        in setTimeout SendTimeout 30000 s2)"

definition handleSubmit :: "config \<Rightarrow> string \<Rightarrow> chat \<Rightarrow> chat" where
  "handleSubmit cfg uuid s =
     (if trim (input s) \<noteq> [] then (sendMessage cfg uuid (trim (input s)) s)\<lparr>input := []\<rparr>
      else s)"

definition setInput :: "string \<Rightarrow> chat \<Rightarrow> chat" where
  "setInput v s = s\<lparr>input := v\<rparr>"

section \<open>Time\<close>

text \<open>
  A timer's callback: the send timeout clears both flags, the connection poll is
  \<open>checkConnection\<close>. No timer is ever cancelled (the source has no \<open>clearTimeout\<close>).
  \<open>advance dt c\<close> lets \<open>dt\<close> milliseconds pass: the timers then due run, the earliest
  first, and a timer armed by one of them waits for a later \<open>advance\<close>. \<open>c\<close> is what
  \<open>isSocketConnected\<close> answers meanwhile.
\<close>

definition fireTimer :: "bool \<Rightarrow> chat \<Rightarrow> timer \<Rightarrow> chat" where
  "fireTimer isSocketConnected s cb =
     (case cb of
        SendTimeout \<Rightarrow> s\<lparr>inputDisabled := False, isAgentThinking := False\<rparr>
      | CheckConnection \<Rightarrow> checkConnection isSocketConnected s)"

definition isDue :: "int \<Rightarrow> int \<times> timer \<Rightarrow> bool" where
  "isDue t e = (fst e \<le> t)"

definition advance :: "nat \<Rightarrow> bool \<Rightarrow> chat \<Rightarrow> chat" where
  "advance dt isSocketConnected s =
     (let t = clock s + int dt;
          due = filter (isDue t) (timers s);
          later = filter (\<lambda>e. \<not> isDue t e) (timers s)
      in foldl (fireTimer isSocketConnected) (s\<lparr>clock := t, timers := later\<rparr>)
           (map snd (sort_key fst due)))"

section \<open>The component as a transition system\<close>

text \<open>
  Every callback of the component is an event. The three socket events reach their
  handlers while the handlers are subscribed. The order in which React runs the
  effects is left open: any order is a run.
\<close>

datatype event =
    InitUserEntity string
  | CheckServer ping_result
  | GenerateRoomId string string
  | ConnectionEffect
  | AddAgentSettled add_agent_result bool bool
  | Advance nat bool
  | SetupListeners
  | CleanupListeners
  | MessageBroadcast string MessageBroadcastData
  | ControlMessage ControlMessageData
  | MessageComplete
  | LoadHistory
  | HistoryResolved "ChatMessage list"
  | HistoryRejected
  | SendMessage string string
  | HandleSubmit string
  | SetInput string

fun step :: "config \<Rightarrow> chat \<Rightarrow> event \<Rightarrow> chat" where
  "step cfg s (InitUserEntity newEntity) = initUserEntity newEntity s"
| "step cfg s (CheckServer r) = checkServer r s"
| "step cfg s (GenerateRoomId query queryRoomId) = generateRoomId cfg query queryRoomId s"
| "step cfg s ConnectionEffect = connectionEffect cfg s"
| "step cfg s (AddAgentSettled r thr c) = initializeConnection_resume r thr c s"
| "step cfg s (Advance dt c) = advance dt c s"
| "step cfg s SetupListeners = setupListeners s"
| "step cfg s CleanupListeners = cleanupListeners s"
| "step cfg s (MessageBroadcast uuid d) =
     (if attached s = None then s else handleMessageBroadcast cfg uuid d s)"
| "step cfg s (ControlMessage c) =
     (if attached s = None then s else handleControlMessage c s)"
| "step cfg s MessageComplete =
     (if attached s = None then s else handleMessageComplete s)"
| "step cfg s LoadHistory = loadHistory cfg s"
| "step cfg s (HistoryResolved loadedMessages) = historyResolved loadedMessages s"
| "step cfg s HistoryRejected = historyRejected s"
| "step cfg s (SendMessage uuid messageText) = sendMessage cfg uuid messageText s"
| "step cfg s (HandleSubmit uuid) = handleSubmit cfg uuid s"
| "step cfg s (SetInput v) = setInput v s"

definition run :: "config \<Rightarrow> chat \<Rightarrow> event list \<Rightarrow> chat" where
  "run cfg s evs = foldl (step cfg) s evs"

section \<open>Notions used by the statements\<close>

text \<open>The history requests among the REST requests issued so far.\<close>

fun isHistoryRequest :: "request \<Rightarrow> bool" where
  "isHistoryRequest (GetRoomMemories a r n) = True"
| "isHistoryRequest (AddAgent c a) = False"

definition historyRequests :: "chat \<Rightarrow> request list" where
  "historyRequests s = filter isHistoryRequest (requests s)"

text \<open>The latch and the history requests agree: one request once the latch is set,
  none before.\<close>

definition fetchedAtMostOnce :: "chat \<Rightarrow> bool" where
  "fetchedAtMostOnce s =
     (if initStartedRef s then length (historyRequests s) = 1 else historyRequests s = [])"

text \<open>The events that come in over the socket.\<close>

fun isSocketEvent :: "event \<Rightarrow> bool" where
  "isSocketEvent (MessageBroadcast uuid d) = True"
| "isSocketEvent (ControlMessage c) = True"
| "isSocketEvent MessageComplete = True"
| "isSocketEvent e = False"

section \<open>Sample inputs\<close>

text \<open>
  An environment, and the state a component reaches from its mount when the server
  answers, the agent is registered, the socket connects and the history is empty.
\<close>

definition cfg0 :: config where
  "cfg0 = \<lparr> agentId = Some ''agent-1'', CHAT_SOURCE = ''localhost'' \<rparr>"

definition live0 :: chat where
  "live0 = run cfg0 (mounted 0 None)
     [InitUserEntity ''user-1'', CheckServer PingTrue, GenerateRoomId [] [],
      ConnectionEffect, AddAgentSettled ResponseOk False True, SetupListeners,
      LoadHistory, HistoryResolved []]"

text \<open>A reply of the agent on the central channel, and the echo of the user's own message.\<close>

definition reply0 :: MessageBroadcastData where
  "reply0 =
     \<lparr> d_id = Some ''m-1'', d_senderName = None, d_text = ''pong'',
       d_senderId = ''agent-1'', d_roomId = None,
       d_channelId = Some ''00000000-0000-0000-0000-000000000000'',
       d_createdAt = None, d_source = Some ''agent'', d_thought = None,
       d_actions = None \<rparr>"

definition echo0 :: MessageBroadcastData where
  "echo0 =
     \<lparr> d_id = Some ''m-0'', d_senderName = Some ''User'', d_text = ''ping'',
       d_senderId = ''user-1'', d_roomId = None,
       d_channelId = Some ''00000000-0000-0000-0000-000000000000'',
       d_createdAt = Some 5, d_source = Some ''localhost'', d_thought = None,
       d_actions = None \<rparr>"

text \<open>A component whose server check has answered and whose room is known.\<close>

definition online0 :: chat where
  "online0 = run cfg0 (mounted 0 None)
     [InitUserEntity ''user-1'', CheckServer PingTrue, GenerateRoomId [] []]"

text \<open>The state after the user has sent \<open>ping\<close>.\<close>

definition sent0 :: chat where
  "sent0 = sendMessage cfg0 ''id-1'' ''ping'' live0"

text \<open>The connected component before its history is requested, and a history of three
  messages.\<close>

definition ready0 :: chat where
  "ready0 = run cfg0 (mounted 0 None)
     [InitUserEntity ''user-1'', CheckServer PingTrue, GenerateRoomId [] [],
      ConnectionEffect, AddAgentSettled ResponseOk False True, SetupListeners]"

definition hist0 :: "ChatMessage list" where
  "hist0 =
     map (\<lambda>(i, t, c).
       \<lparr> m_id = i, m_name = ''User'', m_text = t, m_senderId = ''user-1'',
         m_roomId = Some ''agent-1-user-1'', m_createdAt = c,
         m_source = Some ''localhost'', m_thought = None, m_actions = None,
         m_isLoading = False \<rparr>)
       [(''h-1'', ''hello'', 1), (''h-2'', ''how are you'', 2), (''h-3'', ''bye'', 3)]"

section \<open>Basic facts\<close>

lemmas effect_defs = truthy_def js_or_def or_string_def or_number_def mounted_def
  setTimeout_def initUserEntity_def checkServer_def generateRoomId_def checkConnection_def
  initializeConnection_begin_def addAgentStatus_def initializeConnection_resume_def
  initializeConnection_def connectionEffect_def setupListeners_def cleanupListeners_def
  loadHistory_def historyResolved_def historyRejected_def centralChannelId_def serverId_def

lemma live0_eq:
  "live0 =
     \<lparr> userEntity = Some ''user-1'', messages = [], input = [], inputDisabled = False,
       roomId = Some ''agent-1-user-1'', isLoadingHistory = False, isAgentThinking = False,
       connectionStatus = Connected, serverStatus = Online, agentStatus = Ready,
       initStartedRef = True, attached = Some ''agent-1-user-1'', clock = 0, timers = [],
       transportLog =
         [Initialize (Some ''user-1'') ''00000000-0000-0000-0000-000000000000'',
          On ''messageBroadcast'', On ''controlMessage'', On ''messageComplete'',
          JoinRoom ''agent-1-user-1'',
          JoinChannel ''00000000-0000-0000-0000-000000000000''
            ''00000000-0000-0000-0000-000000000000''],
       requests =
         [AddAgent ''00000000-0000-0000-0000-000000000000'' (Some ''agent-1''),
          GetRoomMemories ''agent-1'' ''agent-1-user-1'' 50],
       localStorage = Some ''user-1'' \<rparr>"
  by (simp add: live0_def run_def cfg0_def effect_defs)

lemma trim_ping: "trim ''ping'' = ''ping''"
  by (simp add: trim_def isWhiteSpace_def)

lemma canSend_live0: "canSend ''ping'' live0"
  by (simp add: canSend_def trim_ping live0_eq truthy_def)

lemma canSend_iff:
  "canSend t s \<longleftrightarrow>
     trim t \<noteq> [] \<and> (\<exists>u. userEntity s = Some u \<and> u \<noteq> []) \<and>
     (\<exists>r. roomId s = Some r \<and> r \<noteq> []) \<and> \<not> inputDisabled s \<and>
     connectionStatus s = Connected"
  by (auto simp: canSend_def truthy_def split: option.splits)

lemma sendMessage_canSend:
  "canSend t s \<Longrightarrow>
   sendMessage cfg uuid t s =
     s\<lparr>messages := messages s @ [userMessage cfg uuid t s],
       isAgentThinking := True, inputDisabled := True,
       transportLog := transportLog s @
         [SendChannelMessage t ''00000000-0000-0000-0000-000000000000'' (CHAT_SOURCE cfg)],
       timers := timers s @ [(clock s + 30000, SendTimeout)]\<rparr>"
  by (simp add: sendMessage_def setTimeout_def)

lemma sendMessage_blocked: "\<not> canSend t s \<Longrightarrow> sendMessage cfg uuid t s = s"
  by (simp add: sendMessage_def)

lemmas step_defs = initUserEntity_def checkServer_def generateRoomId_def connectionEffect_def
  initializeConnection_begin_def initializeConnection_resume_def checkConnection_def
  setTimeout_def setupListeners_def cleanupListeners_def handleMessageBroadcast_def
  handleControlMessage_def handleMessageComplete_def loadHistory_def historyResolved_def
  historyRejected_def sendMessage_def handleSubmit_def setInput_def Let_def

lemma online0_eq:
  "online0 =
     \<lparr> userEntity = Some ''user-1'', messages = [], input = [], inputDisabled = False,
       roomId = Some ''agent-1-user-1'', isLoadingHistory = True, isAgentThinking = False,
       connectionStatus = Connecting, serverStatus = Online, agentStatus = AgentChecking,
       initStartedRef = False, attached = None, clock = 0, timers = [],
       transportLog = [], requests = [], localStorage = Some ''user-1'' \<rparr>"
  by (simp add: online0_def run_def cfg0_def effect_defs)

lemma ready0_eq:
  "ready0 =
     \<lparr> userEntity = Some ''user-1'', messages = [], input = [], inputDisabled = False,
       roomId = Some ''agent-1-user-1'', isLoadingHistory = True, isAgentThinking = False,
       connectionStatus = Connected, serverStatus = Online, agentStatus = Ready,
       initStartedRef = False, attached = Some ''agent-1-user-1'', clock = 0, timers = [],
       transportLog =
         [Initialize (Some ''user-1'') ''00000000-0000-0000-0000-000000000000'',
          On ''messageBroadcast'', On ''controlMessage'', On ''messageComplete'',
          JoinRoom ''agent-1-user-1'',
          JoinChannel ''00000000-0000-0000-0000-000000000000''
            ''00000000-0000-0000-0000-000000000000''],
       requests = [AddAgent ''00000000-0000-0000-0000-000000000000'' (Some ''agent-1'')],
       localStorage = Some ''user-1'' \<rparr>"
  by (simp add: ready0_def run_def cfg0_def effect_defs)

lemma sent0_flags:
  "inputDisabled sent0 \<and> isAgentThinking sent0 \<and> userEntity sent0 = Some ''user-1'' \<and>
   attached sent0 = Some ''agent-1-user-1'' \<and> timers sent0 = [(30000, SendTimeout)] \<and>
   clock sent0 = 0 \<and> length (messages sent0) = 1"
  by (simp add: sent0_def sendMessage_canSend [OF canSend_live0]) (simp add: live0_eq)

lemma isAgentMessage_reply0: "isAgentMessage cfg0 reply0"
  by (simp add: isAgentMessage_def cfg0_def reply0_def)

lemma sent0_ids: "map m_id (messages sent0) = [''id-1'']"
  by (simp add: sent0_def sendMessage_canSend [OF canSend_live0] userMessage_def)
    (simp add: live0_eq)

lemma hist0_ids: "map m_id hist0 = [''h-1'', ''h-2'', ''h-3'']"
  by (simp add: hist0_def)

section \<open>Facts about timers\<close>

text \<open>
  Running timers changes neither the messages, the logs, the latch nor the identities.
  The two flags are cleared exactly when a send timeout is among the timers that run,
  and a connection poll that finds the socket connected sets the status.
\<close>

lemma foldl_fireTimer_frame:
  "messages (foldl (fireTimer c) s cbs) = messages s \<and>
   requests (foldl (fireTimer c) s cbs) = requests s \<and>
   initStartedRef (foldl (fireTimer c) s cbs) = initStartedRef s \<and>
   transportLog (foldl (fireTimer c) s cbs) = transportLog s \<and>
   userEntity (foldl (fireTimer c) s cbs) = userEntity s \<and>
   roomId (foldl (fireTimer c) s cbs) = roomId s \<and>
   clock (foldl (fireTimer c) s cbs) = clock s"
  by (induction cbs arbitrary: s)
    (auto simp: fireTimer_def checkConnection_def setTimeout_def split: timer.splits)

lemma foldl_fireTimer_inputDisabled:
  "inputDisabled (foldl (fireTimer c) s cbs) = (inputDisabled s \<and> SendTimeout \<notin> set cbs)"
  by (induction cbs arbitrary: s)
    (auto simp: fireTimer_def checkConnection_def setTimeout_def split: timer.splits)

lemma foldl_fireTimer_isAgentThinking:
  "isAgentThinking (foldl (fireTimer c) s cbs) = (isAgentThinking s \<and> SendTimeout \<notin> set cbs)"
  by (induction cbs arbitrary: s)
    (auto simp: fireTimer_def checkConnection_def setTimeout_def split: timer.splits)

lemma foldl_fireTimer_connected:
  "connectionStatus (foldl (fireTimer True) s cbs) =
     (if CheckConnection \<in> set cbs then Connected else connectionStatus s)"
  by (induction cbs arbitrary: s)
    (auto simp: fireTimer_def checkConnection_def setTimeout_def split: timer.splits)

lemma due_callbacks:
  "set (map snd (sort_key fst (filter (isDue t) ts))) = {cb. \<exists>d. (d, cb) \<in> set ts \<and> d \<le> t}"
  by (force simp: isDue_def)

lemma advance_frame:
  "messages (advance dt c s) = messages s \<and>
   requests (advance dt c s) = requests s \<and>
   initStartedRef (advance dt c s) = initStartedRef s \<and>
   transportLog (advance dt c s) = transportLog s \<and>
   userEntity (advance dt c s) = userEntity s \<and>
   roomId (advance dt c s) = roomId s \<and>
   clock (advance dt c s) = clock s + int dt"
  by (simp add: advance_def Let_def foldl_fireTimer_frame)

lemma advance_inputDisabled:
  "inputDisabled (advance dt c s) =
     (inputDisabled s \<and> \<not> (\<exists>d. (d, SendTimeout) \<in> set (timers s) \<and> d \<le> clock s + int dt))"
  by (simp add: advance_def Let_def foldl_fireTimer_inputDisabled due_callbacks
      del: set_map)

lemma advance_isAgentThinking:
  "isAgentThinking (advance dt c s) =
     (isAgentThinking s \<and> \<not> (\<exists>d. (d, SendTimeout) \<in> set (timers s) \<and> d \<le> clock s + int dt))"
  by (simp add: advance_def Let_def foldl_fireTimer_isAgentThinking due_callbacks
      del: set_map)

lemma advance_connected:
  "connectionStatus (advance dt True s) =
     (if \<exists>d. (d, CheckConnection) \<in> set (timers s) \<and> d \<le> clock s + int dt then Connected
      else connectionStatus s)"
  by (auto simp add: advance_def Let_def foldl_fireTimer_connected due_callbacks
      simp del: set_map)

lemma enabling_events:
  assumes "inputDisabled s" and "\<not> inputDisabled (step cfg s e)"
  shows "(\<exists>c. e = ControlMessage c \<and> action c = ''enable_input'') \<or> e = MessageComplete \<or>
     (\<exists>dt c d. e = Advance dt c \<and> (d, SendTimeout) \<in> set (timers s) \<and> d \<le> clock s + int dt)"
  using assms
  by (cases e)
    (auto simp: initUserEntity_def checkServer_def generateRoomId_def connectionEffect_def
       initializeConnection_begin_def initializeConnection_resume_def checkConnection_def
       setTimeout_def advance_inputDisabled setupListeners_def cleanupListeners_def
       handleMessageBroadcast_def handleControlMessage_def loadHistory_def Let_def
       historyResolved_def historyRejected_def sendMessage_def handleSubmit_def setInput_def
     split: if_splits option.splits ping_result.splits)


lemma initializeConnection_eq:
  "initializeConnection cfg r thr c s =
     (let s2 = s\<lparr>connectionStatus := Connecting, agentStatus := addAgentStatus r,
                  requests := requests s @ [AddAgent centralChannelId (agentId cfg)],
                  transportLog := transportLog s @ [Initialize (userEntity s) serverId]\<rparr>
      in if thr then s2\<lparr>connectionStatus := ConnectionError\<rparr>
         else if c then s2\<lparr>connectionStatus := Connected\<rparr>
         else s2\<lparr>timers := timers s @ [(clock s + 1000, CheckConnection)]\<rparr>)"
  by (simp add: initializeConnection_def initializeConnection_begin_def
      initializeConnection_resume_def checkConnection_def setTimeout_def Let_def)

section \<open>Self-echo suppression\<close>

text \<open>
  Claim C1. A message-broadcast event whose \<open>senderId\<close> is the local user identity
  leaves the whole state as it is: nothing is appended to the message list and no
  other cell changes, whether the handler is called directly or the event is
  delivered to the component. After a send, the echo of the sent message therefore
  leaves the list with the one optimistic message the send appended.
\<close>

theorem self_echo_suppressed:
  assumes "userEntity s = Some (d_senderId d)"
  shows "handleMessageBroadcast cfg uuid d s = s \<and>
         step cfg s (MessageBroadcast uuid d) = s \<and>
         (canSend t s \<longrightarrow>
            messages (handleMessageBroadcast cfg uuid d (sendMessage cfg uuid' t s)) =
              messages s @ [userMessage cfg uuid' t s])"
proof -
  have a: "handleMessageBroadcast cfg uuid d s = s"
    using assms by (simp add: handleMessageBroadcast_def)
  have b: "step cfg s (MessageBroadcast uuid d) = s"
    using a by simp
  have c: "messages (handleMessageBroadcast cfg uuid d (sendMessage cfg uuid' t s)) =
             messages s @ [userMessage cfg uuid' t s]" if "canSend t s"
    using assms that by (simp add: sendMessage_canSend handleMessageBroadcast_def)
  from a b c show ?thesis by blast
qed

theorem self_echo_suppressed_witness:
  "userEntity live0 = Some (d_senderId echo0) \<and>
   handleMessageBroadcast cfg0 ''id-2'' echo0 live0 = live0 \<and>
   canSend ''ping'' live0 \<and>
   length (messages (handleMessageBroadcast cfg0 ''id-2'' echo0
     (sendMessage cfg0 ''id-1'' ''ping'' live0))) = 1"
proof -
  have h: "userEntity live0 = Some (d_senderId echo0)"
    by (simp add: live0_eq echo0_def)
  have m: "messages live0 = []"
    by (simp add: live0_eq)
  show ?thesis
    using h m canSend_live0
      self_echo_suppressed [OF h, of cfg0 "''id-2''" "''ping''" "''id-1''"]
    by simp
qed

section \<open>Agent classification\<close>

text \<open>
  Claim C2. A message-broadcast event whose \<open>senderId\<close> is not the local identity,
  and whose \<open>senderId\<close> is the agent identity or whose channel or room identifier is
  the all-zero channel, sets \<open>isAgentThinking\<close> to false and appends exactly one
  message. The message carries the event's sender and text, and its display name is
  the event's sender name, or \<open>Agent\<close> when the event has none.
\<close>

theorem agent_classification:
  assumes "userEntity s \<noteq> Some (d_senderId d)"
    and "agentId cfg = Some (d_senderId d) \<or>
         d_channelId d = Some ''00000000-0000-0000-0000-000000000000'' \<or>
         d_roomId d = Some ''00000000-0000-0000-0000-000000000000''"
  shows "\<not> isAgentThinking (handleMessageBroadcast cfg uuid d s) \<and>
         messages (handleMessageBroadcast cfg uuid d s) =
           messages s @ [broadcastMessage cfg uuid d s] \<and>
         length (messages (handleMessageBroadcast cfg uuid d s)) = Suc (length (messages s)) \<and>
         m_name (broadcastMessage cfg uuid d s) = or_string (d_senderName d) ''Agent'' \<and>
         (d_senderName d = None \<longrightarrow> m_name (broadcastMessage cfg uuid d s) = ''Agent'') \<and>
         m_senderId (broadcastMessage cfg uuid d s) = d_senderId d \<and>
         m_text (broadcastMessage cfg uuid d s) = d_text d"
proof -
  have ag: "isAgentMessage cfg d"
    using assms(2) by (auto simp: isAgentMessage_def)
  have ne: "Some (d_senderId d) \<noteq> userEntity s"
    using assms(1) by auto
  show ?thesis
    using ag ne
    by (simp add: handleMessageBroadcast_def broadcastMessage_def or_string_def)
qed

theorem agent_classification_witness:
  "userEntity live0 \<noteq> Some (d_senderId reply0) \<and>
   agentId cfg0 = Some (d_senderId reply0) \<and>
   \<not> isAgentThinking (handleMessageBroadcast cfg0 ''id-2'' reply0 live0) \<and>
   length (messages (handleMessageBroadcast cfg0 ''id-2'' reply0 live0)) = 1 \<and>
   m_name (broadcastMessage cfg0 ''id-2'' reply0 live0) = ''Agent''"
proof -
  have h1: "userEntity live0 \<noteq> Some (d_senderId reply0)"
    by (simp add: live0_eq reply0_def)
  have h2: "agentId cfg0 = Some (d_senderId reply0)"
    by (simp add: cfg0_def reply0_def)
  have n: "d_senderName reply0 = None"
    by (simp add: reply0_def)
  have m: "messages live0 = []"
    by (simp add: live0_eq)
  show ?thesis
    using h1 h2 n m agent_classification [OF h1 disjI1 [OF h2], of "''id-2''"]
    by (simp add: or_string_def)
qed

section \<open>Send preconditions\<close>

text \<open>
  Claim C3. \<open>sendMessage\<close> returns the state it was given (no message appended, no
  call on the transport, no timer armed, no flag changed) whenever a precondition
  fails: the text trims to the empty string, the user identity is null (or empty),
  the room id is null (or empty), \<open>inputDisabled\<close> is true, or the connection status
  is not \<open>connected\<close>.
\<close>

theorem send_precondition_gating:
  assumes "trim t = [] \<or> userEntity s = None \<or> userEntity s = Some [] \<or>
           roomId s = None \<or> roomId s = Some [] \<or> inputDisabled s \<or>
           connectionStatus s \<noteq> Connected"
  shows "sendMessage cfg uuid t s = s"
proof -
  have "\<not> canSend t s"
    using assms by (auto simp: canSend_iff)
  then show ?thesis
    by (rule sendMessage_blocked)
qed

theorem send_precondition_gating_witness:
  "trim ''  '' = [] \<and> sendMessage cfg0 ''id-1'' ''  '' live0 = live0 \<and>
   sendMessage cfg0 ''id-1'' [] live0 = live0 \<and>
   sendMessage cfg0 ''id-1'' ''x'' (live0\<lparr>inputDisabled := True\<rparr>) =
     live0\<lparr>inputDisabled := True\<rparr>"
proof -
  have e1: "trim ''  '' = []"
    by (simp add: trim_def isWhiteSpace_def)
  have e2: "trim [] = []"
    by (simp add: trim_def)
  have e3: "inputDisabled (live0\<lparr>inputDisabled := True\<rparr>)"
    by simp
  show ?thesis
    using e1
      send_precondition_gating [of "''  ''" live0 cfg0 "''id-1''"]
      send_precondition_gating [of "[]" live0 cfg0 "''id-1''"]
      send_precondition_gating [of "''x''" "live0\<lparr>inputDisabled := True\<rparr>" cfg0 "''id-1''"]
      e2 e3
    by simp
qed

section \<open>Send postcondition\<close>

text \<open>
  Claim C4. When every precondition holds, \<open>sendMessage\<close> appends exactly one message,
  whose id is the freshly generated uuid, whose sender is the local identity and whose
  source is \<open>CHAT_SOURCE\<close>; it sets \<open>isAgentThinking\<close> and \<open>inputDisabled\<close> to true; and
  it adds exactly one call to the transport, which sends the text to the all-zero
  channel. Beyond these and the timer it arms, nothing changes.
\<close>

theorem send_success:
  assumes "trim t \<noteq> []" and "userEntity s = Some u" and "u \<noteq> []"
    and "roomId s = Some r" and "r \<noteq> []" and "\<not> inputDisabled s"
    and "connectionStatus s = Connected"
  shows "sendMessage cfg uuid t s =
           s\<lparr>messages := messages s @ [userMessage cfg uuid t s],
             isAgentThinking := True, inputDisabled := True,
             transportLog := transportLog s @
               [SendChannelMessage t ''00000000-0000-0000-0000-000000000000''
                  (CHAT_SOURCE cfg)],
             timers := timers s @ [(clock s + 30000, SendTimeout)]\<rparr> \<and>
         m_id (userMessage cfg uuid t s) = uuid \<and>
         m_senderId (userMessage cfg uuid t s) = u \<and>
         m_text (userMessage cfg uuid t s) = t \<and>
         m_name (userMessage cfg uuid t s) = ''User'' \<and>
         m_source (userMessage cfg uuid t s) = Some (CHAT_SOURCE cfg) \<and>
         length (messages (sendMessage cfg uuid t s)) = Suc (length (messages s)) \<and>
         isAgentThinking (sendMessage cfg uuid t s) \<and>
         inputDisabled (sendMessage cfg uuid t s)"
proof -
  have cs: "canSend t s"
    using assms by (simp add: canSend_iff)
  have um: "m_id (userMessage cfg uuid t s) = uuid \<and>
            m_senderId (userMessage cfg uuid t s) = u \<and>
            m_text (userMessage cfg uuid t s) = t \<and>
            m_name (userMessage cfg uuid t s) = ''User'' \<and>
            m_source (userMessage cfg uuid t s) = Some (CHAT_SOURCE cfg)"
    using assms(2,3) by (simp add: userMessage_def or_string_def USER_NAME_def)
  show ?thesis
    using um by (simp add: sendMessage_canSend [OF cs])
qed

theorem send_success_witness:
  "trim ''ping'' \<noteq> [] \<and> userEntity live0 = Some ''user-1'' \<and>
   roomId live0 = Some ''agent-1-user-1'' \<and> \<not> inputDisabled live0 \<and>
   connectionStatus live0 = Connected \<and>
   map m_id (messages (sendMessage cfg0 ''id-1'' ''ping'' live0)) = [''id-1''] \<and>
   transportLog (sendMessage cfg0 ''id-1'' ''ping'' live0) =
     transportLog live0 @
       [SendChannelMessage ''ping'' ''00000000-0000-0000-0000-000000000000'' ''localhost''] \<and>
   isAgentThinking (sendMessage cfg0 ''id-1'' ''ping'' live0) \<and>
   inputDisabled (sendMessage cfg0 ''id-1'' ''ping'' live0)"
proof -
  have h1: "trim ''ping'' \<noteq> []"
    by (simp add: trim_ping)
  have h2: "userEntity live0 = Some ''user-1''"
    by (simp add: live0_eq)
  have h3: "''user-1'' \<noteq> []"
    by simp
  have h4: "roomId live0 = Some ''agent-1-user-1''"
    by (simp add: live0_eq)
  have h5: "''agent-1-user-1'' \<noteq> []"
    by simp
  have h6: "\<not> inputDisabled live0"
    by (simp add: live0_eq)
  have h7: "connectionStatus live0 = Connected"
    by (simp add: live0_eq)
  have m: "messages live0 = []"
    by (simp add: live0_eq)
  have c: "CHAT_SOURCE cfg0 = ''localhost''"
    by (simp add: cfg0_def)
  show ?thesis
    using h1 h2 h4 h6 h7 m c send_success [OF h1 h2 h3 h4 h5 h6 h7, of cfg0 "''id-1''"]
    by simp
qed

section \<open>The send timeout\<close>

lemma socket_event_timers:
  assumes "isSocketEvent e"
  shows "timers (step cfg s e) = timers s \<and> clock (step cfg s e) = clock s"
  using assms
  by (cases e) (simp_all add: step_defs)

lemma socket_events_timers:
  "list_all isSocketEvent evs \<Longrightarrow>
   timers (run cfg s evs) = timers s \<and> clock (run cfg s evs) = clock s"
  unfolding run_def
proof (induction evs arbitrary: s)
  case Nil
  show ?case by simp
next
  case (Cons e evs)
  then have e: "isSocketEvent e" and es: "list_all isSocketEvent evs"
    by simp_all
  show ?case
    using Cons.IH [OF es, of "step cfg s e"] socket_event_timers [OF e, of cfg s]
    by simp
qed

text \<open>
  Claim C5, as the code has it. A successful \<open>sendMessage\<close> arms one timer, due 30000
  milliseconds later. The timer is never cancelled and its callback looks at nothing:
  after the send, whatever socket events arrive in the meantime (agent replies,
  control messages, completion signals, or none), both \<open>inputDisabled\<close> and
  \<open>isAgentThinking\<close> are false once the 30 seconds have passed. With no event in the
  meantime the message list is then the old list with the one optimistic message.
\<close>

theorem send_timeout:
  "(canSend t s \<longrightarrow>
      timers (sendMessage cfg uuid t s) = timers s @ [(clock s + 30000, SendTimeout)]) \<and>
   (canSend t s \<and> list_all isSocketEvent evs \<longrightarrow>
      inputDisabled (advance 30000 c (run cfg (sendMessage cfg uuid t s) evs)) = False \<and>
      isAgentThinking (advance 30000 c (run cfg (sendMessage cfg uuid t s) evs)) = False) \<and>
   (canSend t s \<longrightarrow>
      inputDisabled (advance 30000 c (sendMessage cfg uuid t s)) = False \<and>
      isAgentThinking (advance 30000 c (sendMessage cfg uuid t s)) = False \<and>
      messages (advance 30000 c (sendMessage cfg uuid t s)) =
        messages s @ [userMessage cfg uuid t s])"
proof -
  have a: "timers (sendMessage cfg uuid t s) = timers s @ [(clock s + 30000, SendTimeout)] \<and>
           clock (sendMessage cfg uuid t s) = clock s \<and>
           messages (sendMessage cfg uuid t s) = messages s @ [userMessage cfg uuid t s]"
    if "canSend t s"
    using that by (simp add: sendMessage_canSend)
  have b: "inputDisabled (advance 30000 c (run cfg (sendMessage cfg uuid t s) es)) = False \<and>
           isAgentThinking (advance 30000 c (run cfg (sendMessage cfg uuid t s) es)) = False"
    if "canSend t s" and "list_all isSocketEvent es" for es
  proof -
    let ?s = "run cfg (sendMessage cfg uuid t s) es"
    have "(clock s + 30000, SendTimeout) \<in> set (timers ?s)" and "clock ?s = clock s"
      using socket_events_timers [OF that(2), of cfg "sendMessage cfg uuid t s"] a [OF that(1)]
      by simp_all
    then have "\<exists>d. (d, SendTimeout) \<in> set (timers ?s) \<and> d \<le> clock ?s + int 30000"
      by (intro exI [of _ "clock s + 30000"]) simp
    then show ?thesis
      by (simp add: advance_inputDisabled advance_isAgentThinking)
  qed
  have c: "inputDisabled (advance 30000 c (sendMessage cfg uuid t s)) = False \<and>
      isAgentThinking (advance 30000 c (sendMessage cfg uuid t s)) = False \<and>
      messages (advance 30000 c (sendMessage cfg uuid t s)) =
        messages s @ [userMessage cfg uuid t s]"
    if "canSend t s"
    using b [of "[]"] a [OF that] that by (simp add: run_def advance_frame)
  from a b c show ?thesis
    by blast
qed

theorem send_timeout_witness:
  "canSend ''ping'' live0 \<and>
   timers (sendMessage cfg0 ''id-1'' ''ping'' live0) = [(30000, SendTimeout)] \<and>
   inputDisabled (sendMessage cfg0 ''id-1'' ''ping'' live0) \<and>
   inputDisabled (advance 30000 False (sendMessage cfg0 ''id-1'' ''ping'' live0)) = False \<and>
   isAgentThinking (advance 30000 False (sendMessage cfg0 ''id-1'' ''ping'' live0)) = False \<and>
   length (messages (advance 30000 False (sendMessage cfg0 ''id-1'' ''ping'' live0))) = 1 \<and>
   inputDisabled (advance 30000 False (run cfg0 (sendMessage cfg0 ''id-1'' ''ping'' live0)
     [MessageBroadcast ''id-2'' reply0, ControlMessage \<lparr>action = ''disable_input''\<rparr>])) = False"
proof -
  have e: "list_all isSocketEvent
     [MessageBroadcast ''id-2'' reply0, ControlMessage \<lparr>action = ''disable_input''\<rparr>]"
    by simp
  have l: "timers live0 = [] \<and> clock live0 = 0 \<and> messages live0 = []"
    by (simp add: live0_eq)
  have d: "inputDisabled (sendMessage cfg0 ''id-1'' ''ping'' live0)"
    by (simp add: sendMessage_canSend [OF canSend_live0])
  show ?thesis
    using e l d canSend_live0
      send_timeout [where t = "''ping''" and s = live0 and cfg = cfg0 and uuid = "''id-1''"
        and c = False
        and evs = "[MessageBroadcast ''id-2'' reply0, ControlMessage \<lparr>action = ''disable_input''\<rparr>]"]
    by simp
qed

text \<open>
  The claim as it is written fails: after a send, a reply classified as the agent's
  arrives and leaves \<open>inputDisabled\<close> true; the timeout then runs and clears it, although
  the reply came first.
\<close>

theorem send_timeout_counterexample:
  "isAgentMessage cfg0 reply0 \<and>
   inputDisabled (step cfg0 sent0 (MessageBroadcast ''id-2'' reply0)) \<and>
   \<not> inputDisabled (advance 30000 True (step cfg0 sent0 (MessageBroadcast ''id-2'' reply0)))"
proof -
  have h: "Some (d_senderId reply0) \<noteq> userEntity sent0"
    using sent0_flags by (simp add: reply0_def)
  have s: "step cfg0 sent0 (MessageBroadcast ''id-2'' reply0) =
             sent0\<lparr>messages := messages sent0 @ [broadcastMessage cfg0 ''id-2'' reply0 sent0],
                   isAgentThinking := False\<rparr>"
    using h sent0_flags isAgentMessage_reply0 by (simp add: handleMessageBroadcast_def)
  show ?thesis
    unfolding s using sent0_flags isAgentMessage_reply0
    by (simp add: advance_inputDisabled)
qed

section \<open>The history load\<close>

lemma step_latched:
  assumes "initStartedRef s"
  shows "initStartedRef (step cfg s e) \<and> historyRequests (step cfg s e) = historyRequests s"
  using assms
  by (cases e)
    (simp_all add: step_defs advance_frame historyRequests_def
       split: option.splits ping_result.splits)

lemma run_latched:
  "initStartedRef s \<Longrightarrow>
   initStartedRef (run cfg s evs) \<and> historyRequests (run cfg s evs) = historyRequests s"
  unfolding run_def
proof (induction evs arbitrary: s)
  case Nil
  then show ?case by simp
next
  case (Cons e evs)
  have "initStartedRef (step cfg s e)" and "historyRequests (step cfg s e) = historyRequests s"
    using step_latched [OF Cons.prems] by auto
  then show ?case
    using Cons.IH [of "step cfg s e"] by simp
qed

lemma step_unlatched:
  assumes "initStartedRef s = False" and "historyRequests s = []"
  shows "fetchedAtMostOnce (step cfg s e)"
  using assms
  by (cases e)
    (simp_all add: step_defs advance_frame historyRequests_def fetchedAtMostOnce_def
       split: option.splits ping_result.splits)

lemma step_fetchedAtMostOnce:
  assumes "fetchedAtMostOnce s"
  shows "fetchedAtMostOnce (step cfg s e)"
proof (cases "initStartedRef s")
  case True
  then show ?thesis
    using assms step_latched [OF True, of cfg e] by (simp add: fetchedAtMostOnce_def)
next
  case False
  then have "historyRequests s = []"
    using assms by (simp add: fetchedAtMostOnce_def)
  then show ?thesis
    using False step_unlatched by simp
qed

lemma run_fetchedAtMostOnce:
  "fetchedAtMostOnce s \<Longrightarrow> fetchedAtMostOnce (run cfg s evs)"
  unfolding run_def
  by (induction evs arbitrary: s) (simp_all add: step_fetchedAtMostOnce)

lemma mounted_fetchedAtMostOnce: "fetchedAtMostOnce (mounted t st)"
  by (simp add: fetchedAtMostOnce_def historyRequests_def mounted_def)

text \<open>
  Claim C6, as the code has it. The latch \<open>initStartedRef\<close> is a boolean. With the room
  id and the agent id set, the status \<open>connected\<close> and the latch open, the effect sets
  the latch and issues the one request \<open>getRoomMemories(agentId, roomId, 50)\<close>. Once
  the latch is set the effect does nothing, and no event of the component opens the
  latch again or adds a history request, a change of the room id included: over the
  whole life of a mounted component at most one history request is issued. When the
  request succeeds the fetched list replaces the message list; when it fails the
  message list stays as it is.
\<close>

theorem history_one_shot:
  "(roomId s = Some r \<and> r \<noteq> [] \<and> agentId cfg = Some a \<and> a \<noteq> [] \<and>
    connectionStatus s = Connected \<and> initStartedRef s = False \<longrightarrow>
      loadHistory cfg s =
        s\<lparr>initStartedRef := True, isLoadingHistory := True,
          requests := requests s @ [GetRoomMemories a r 50]\<rparr>) \<and>
   (initStartedRef s \<longrightarrow>
      loadHistory cfg s = s \<and> initStartedRef (run cfg s evs) \<and>
      historyRequests (run cfg s evs) = historyRequests s) \<and>
   length (historyRequests (run cfg (mounted t0 stored) evs)) \<le> 1 \<and>
   messages (historyResolved loadedMessages s) = loadedMessages \<and>
   messages (historyRejected s) = messages s"
proof -
  have a: "loadHistory cfg s = s" if "initStartedRef s"
    using that by (simp add: loadHistory_def split: option.splits)
  have b: "length (historyRequests (run cfg (mounted t0 stored) evs)) \<le> 1"
    using run_fetchedAtMostOnce [OF mounted_fetchedAtMostOnce, of cfg t0 stored evs]
    by (simp add: fetchedAtMostOnce_def split: if_splits)
  have c: "loadHistory cfg s =
        s\<lparr>initStartedRef := True, isLoadingHistory := True,
          requests := requests s @ [GetRoomMemories a r 50]\<rparr>"
    if "roomId s = Some r" "r \<noteq> []" "agentId cfg = Some a" "a \<noteq> []"
      "connectionStatus s = Connected" "initStartedRef s = False"
    using that by (simp add: loadHistory_def)
  have d: "messages (historyResolved loadedMessages s) = loadedMessages \<and>
   messages (historyRejected s) = messages s"
    by (simp add: historyResolved_def historyRejected_def)
  show ?thesis
    using a b c d run_latched [of s cfg evs]
    by blast
qed

theorem history_one_shot_witness:
  "roomId ready0 = Some ''agent-1-user-1'' \<and> agentId cfg0 = Some ''agent-1'' \<and>
   connectionStatus ready0 = Connected \<and> initStartedRef ready0 = False \<and>
   requests (loadHistory cfg0 ready0) =
     requests ready0 @ [GetRoomMemories ''agent-1'' ''agent-1-user-1'' 50] \<and>
   initStartedRef live0 \<and> loadHistory cfg0 live0 = live0 \<and>
   historyRequests (run cfg0 live0 [GenerateRoomId ''docs'' ''room-2'', LoadHistory]) =
     historyRequests live0 \<and>
   map m_id (messages (historyResolved hist0 live0)) = [''h-1'', ''h-2'', ''h-3'']"
proof -
  have r: "roomId ready0 = Some ''agent-1-user-1'' \<and> connectionStatus ready0 = Connected \<and>
           initStartedRef ready0 = False"
    by (simp add: ready0_eq)
  have a: "agentId cfg0 = Some ''agent-1''"
    by (simp add: cfg0_def)
  have l: "initStartedRef live0"
    by (simp add: live0_eq)
  have n: "''agent-1-user-1'' \<noteq> [] \<and> ''agent-1'' \<noteq> []"
    by simp
  show ?thesis
    using r a l n hist0_ids
      history_one_shot [where s = ready0 and r = "''agent-1-user-1''" and cfg = cfg0
        and a = "''agent-1''" and evs = "[]" and loadedMessages = hist0]
      history_one_shot [where s = live0 and r = "''agent-1-user-1''" and cfg = cfg0
        and a = "''agent-1''" and evs = "[GenerateRoomId ''docs'' ''room-2'', LoadHistory]"
        and loadedMessages = hist0]
    by simp
qed

text \<open>
  The claim as it is written fails: the latch does not re-arm when the session key
  changes. After the history of the first room has been requested, the room id
  changes, the listeners are set up again and the history effect runs again; the
  only history request ever issued is the one for the first room.
\<close>

lemma changed0:
  "run cfg0 live0
     [GenerateRoomId ''docs'' ''room-2'', CleanupListeners, SetupListeners, LoadHistory] =
   live0\<lparr>roomId := Some ''room-2'', attached := Some ''room-2'',
     transportLog := transportLog live0 @
       [Off ''messageBroadcast'', Off ''controlMessage'', Off ''messageComplete'',
        LeaveRoom ''agent-1-user-1'', LeaveChannel ''00000000-0000-0000-0000-000000000000'',
        On ''messageBroadcast'', On ''controlMessage'', On ''messageComplete'',
        JoinRoom ''room-2'',
        JoinChannel ''00000000-0000-0000-0000-000000000000''
          ''00000000-0000-0000-0000-000000000000'']\<rparr>"
  by (simp add: live0_eq run_def cfg0_def effect_defs)

theorem history_latch_counterexample:
  "roomId live0 = Some ''agent-1-user-1'' \<and>
   roomId (run cfg0 live0
     [GenerateRoomId ''docs'' ''room-2'', CleanupListeners, SetupListeners, LoadHistory]) =
     Some ''room-2'' \<and>
   historyRequests (run cfg0 live0
     [GenerateRoomId ''docs'' ''room-2'', CleanupListeners, SetupListeners, LoadHistory]) =
     [GetRoomMemories ''agent-1'' ''agent-1-user-1'' 50]"
  unfolding changed0
  by (simp add: live0_eq historyRequests_def)

section \<open>The completion signal\<close>

text \<open>
  Claim C7. \<open>handleMessageComplete\<close> sets \<open>isAgentThinking\<close> and \<open>inputDisabled\<close> to
  false whatever they were and touches nothing else, the message list included;
  handling the event again, any number of times, gives the state the first handling
  gave.
\<close>

theorem completion_idempotent:
  "handleMessageComplete s = s\<lparr>isAgentThinking := False, inputDisabled := False\<rparr> \<and>
   \<not> isAgentThinking (handleMessageComplete s) \<and>
   \<not> inputDisabled (handleMessageComplete s) \<and>
   messages (handleMessageComplete s) = messages s \<and>
   handleMessageComplete (handleMessageComplete s) = handleMessageComplete s \<and>
   (handleMessageComplete ^^ Suc n) s = handleMessageComplete s"
proof -
  have idem: "handleMessageComplete (handleMessageComplete x) = handleMessageComplete x" for x
    by (simp add: handleMessageComplete_def)
  have pow: "(handleMessageComplete ^^ Suc n) s = handleMessageComplete s"
  proof (induction n)
    case 0
    show ?case by simp
  next
    case (Suc n)
    have "(handleMessageComplete ^^ Suc (Suc n)) s =
            handleMessageComplete ((handleMessageComplete ^^ Suc n) s)"
      by simp
    also have "\<dots> = handleMessageComplete (handleMessageComplete s)"
      using Suc.IH by simp
    also have "\<dots> = handleMessageComplete s"
      by (rule idem)
    finally show ?case .
  qed
  show ?thesis
    using idem pow by (simp add: handleMessageComplete_def)
qed

theorem completion_idempotent_witness:
  "inputDisabled (sendMessage cfg0 ''id-1'' ''ping'' live0) \<and>
   \<not> inputDisabled (handleMessageComplete (sendMessage cfg0 ''id-1'' ''ping'' live0)) \<and>
   (handleMessageComplete ^^ 3) (sendMessage cfg0 ''id-1'' ''ping'' live0) =
     handleMessageComplete (sendMessage cfg0 ''id-1'' ''ping'' live0)"
proof -
  have three: "(3::nat) = Suc 2"
    by simp
  show ?thesis
    using completion_idempotent [of "sendMessage cfg0 ''id-1'' ''ping'' live0" 2]
    unfolding three
    by (simp add: sendMessage_canSend [OF canSend_live0])
qed

section \<open>Registration is not fatal\<close>

text \<open>
  Claim C8. Whatever the registration request gives (an OK response, a non-OK
  response, a thrown error), \<open>initializeConnection\<close> goes on: it calls the transport's
  \<open>initialize\<close> with the user identity and the server id, and, when that call returns,
  it checks the connection, setting the status to \<open>connected\<close> or arming the poll that
  is due one second later; that poll connects when the socket is then connected and
  arms the next poll, one second later again, when it is not. Two runs that differ in
  the registration outcome only end in states that differ in \<open>agentStatus\<close> only.
\<close>

theorem registration_non_fatal:
  "transportLog (initializeConnection cfg r thr c s) =
     transportLog s @ [Initialize (userEntity s) ''00000000-0000-0000-0000-000000000000''] \<and>
   agentStatus (initializeConnection cfg r thr c s) =
     (case r of ResponseOk \<Rightarrow> Ready | ResponseNotOk None \<Rightarrow> AgentError
      | ResponseNotOk (Some errorText) \<Rightarrow> Ready | FetchThrows \<Rightarrow> AgentError) \<and>
   initializeConnection cfg r thr c s =
     (initializeConnection cfg r' thr c s)
       \<lparr>agentStatus := agentStatus (initializeConnection cfg r thr c s)\<rparr> \<and>
   (\<not> thr \<longrightarrow>
      (if c then connectionStatus (initializeConnection cfg r thr c s) = Connected \<and>
                 timers (initializeConnection cfg r thr c s) = timers s
       else connectionStatus (initializeConnection cfg r thr c s) = Connecting \<and>
            timers (initializeConnection cfg r thr c s) =
              timers s @ [(clock s + 1000, CheckConnection)] \<and>
            connectionStatus (advance 1000 True (initializeConnection cfg r thr c s)) =
              Connected \<and>
            (timers s = [] \<longrightarrow>
               timers (advance 1000 False (initializeConnection cfg r thr c s)) =
                 [(clock s + 2000, CheckConnection)])))"
proof -
  have a: "connectionStatus (advance 1000 True (initializeConnection cfg r False False s)) =
             Connected"
    by (simp add: advance_connected) (auto simp: initializeConnection_eq Let_def)
  have b: "timers (advance 1000 False (initializeConnection cfg r False False s)) =
             [(clock s + 2000, CheckConnection)]" if "timers s = []"
    using that
    by (simp add: initializeConnection_eq advance_def Let_def isDue_def fireTimer_def
        checkConnection_def setTimeout_def)
  show ?thesis
    using a b
    by (cases thr; cases c)
       (simp_all add: initializeConnection_eq Let_def addAgentStatus_def serverId_def
          centralChannelId_def split: add_agent_result.splits option.splits)
qed

theorem registration_non_fatal_witness:
  "agentStatus (initializeConnection cfg0 FetchThrows False False online0) = AgentError \<and>
   agentStatus (initializeConnection cfg0 (ResponseNotOk (Some ''exists'')) False False online0) =
     Ready \<and>
   transportLog (initializeConnection cfg0 FetchThrows False False online0) =
     [Initialize (Some ''user-1'') ''00000000-0000-0000-0000-000000000000''] \<and>
   timers (initializeConnection cfg0 FetchThrows False False online0) =
     [(1000, CheckConnection)] \<and>
   connectionStatus (advance 1000 True
     (initializeConnection cfg0 FetchThrows False False online0)) = Connected \<and>
   connectionStatus (initializeConnection cfg0 FetchThrows False True online0) = Connected"
proof -
  have u: "userEntity online0 = Some ''user-1''"
    by (simp add: online0_eq)
  have t: "timers online0 = []"
    by (simp add: online0_eq)
  have c: "clock online0 = 0"
    by (simp add: online0_eq)
  have l: "transportLog online0 = []"
    by (simp add: online0_eq)
  show ?thesis
    using u t c l
      registration_non_fatal [of cfg0 FetchThrows False False online0 ResponseOk]
      registration_non_fatal [of cfg0 "ResponseNotOk (Some ''exists'')" False False online0
        ResponseOk]
      registration_non_fatal [of cfg0 FetchThrows False True online0 ResponseOk]
    by simp
qed

section \<open>Message ids\<close>

lemma messages_frame:
  "messages (step cfg s e) = messages s \<or>
   (\<exists>uuid d. e = MessageBroadcast uuid d) \<or> (\<exists>l. e = HistoryResolved l) \<or>
   (\<exists>uuid t. e = SendMessage uuid t) \<or> (\<exists>uuid. e = HandleSubmit uuid)"
  by (cases e)
    (simp_all add: step_defs advance_frame split: option.splits ping_result.splits)

text \<open>
  Claim C9, as the code has it. No append site checks for a duplicate; each keeps the
  ids of the list distinct exactly when the id it brings is new. Starting from a list
  with distinct ids: the optimistic append of \<open>sendMessage\<close> keeps them distinct if and
  only if the generated uuid is not an id of the list; the append of the broadcast
  handler (for an event that is not a self-echo) if and only if the event's id, or
  the generated uuid when the event has none, is not an id of the list; and the
  history load leaves a list with distinct ids if and only if the fetched list has
  distinct ids. No other operation changes the message list.
\<close>

theorem unique_ids_preserved:
  "(distinct (map m_id (messages s)) \<and> canSend t s \<longrightarrow>
      distinct (map m_id (messages (sendMessage cfg uuid t s))) =
        (uuid \<notin> set (map m_id (messages s)))) \<and>
   (distinct (map m_id (messages s)) \<and> userEntity s \<noteq> Some (d_senderId d) \<longrightarrow>
      distinct (map m_id (messages (handleMessageBroadcast cfg uuid d s))) =
        (or_string (d_id d) uuid \<notin> set (map m_id (messages s)))) \<and>
   distinct (map m_id (messages (historyResolved loadedMessages s))) =
     distinct (map m_id loadedMessages) \<and>
   (messages (step cfg s e) \<noteq> messages s \<longrightarrow>
      (\<exists>uuid d. e = MessageBroadcast uuid d) \<or> (\<exists>l. e = HistoryResolved l) \<or>
      (\<exists>uuid t. e = SendMessage uuid t) \<or> (\<exists>uuid. e = HandleSubmit uuid))"
proof -
  have a: "distinct (map m_id (messages (sendMessage cfg uuid t s))) =
             (uuid \<notin> set (map m_id (messages s)))"
    if "distinct (map m_id (messages s))" and "canSend t s"
    using that by (simp add: sendMessage_canSend userMessage_def)
  have b: "distinct (map m_id (messages (handleMessageBroadcast cfg uuid d s))) =
             (or_string (d_id d) uuid \<notin> set (map m_id (messages s)))"
    if "distinct (map m_id (messages s))" and "userEntity s \<noteq> Some (d_senderId d)"
  proof -
    have "Some (d_senderId d) \<noteq> userEntity s"
      using that(2) by auto
    then show ?thesis
      using that(1) by (simp add: handleMessageBroadcast_def broadcastMessage_def Let_def)
  qed
  have c: "distinct (map m_id (messages (historyResolved loadedMessages s))) =
             distinct (map m_id loadedMessages)"
    by (simp add: historyResolved_def)
  from a b c messages_frame [of cfg s e] show ?thesis
    by blast
qed

theorem unique_ids_preserved_witness:
  "distinct (map m_id (messages live0)) \<and> canSend ''ping'' live0 \<and>
   distinct (map m_id (messages (sendMessage cfg0 ''id-1'' ''ping'' live0))) \<and>
   distinct (map m_id (messages sent0)) \<and>
   userEntity sent0 \<noteq> Some (d_senderId reply0) \<and>
   distinct (map m_id (messages (handleMessageBroadcast cfg0 ''id-2'' reply0 sent0))) \<and>
   distinct (map m_id (messages (historyResolved hist0 sent0)))"
proof -
  have l: "messages live0 = []"
    by (simp add: live0_eq)
  have u: "userEntity sent0 \<noteq> Some (d_senderId reply0)"
    using sent0_flags by (simp add: reply0_def)
  have i: "or_string (d_id reply0) ''id-2'' = ''m-1''"
    by (simp add: reply0_def or_string_def)
  show ?thesis
    using l u i canSend_live0 sent0_ids hist0_ids
      unique_ids_preserved [where s = live0 and t = "''ping''" and cfg = cfg0
        and uuid = "''id-1''" and d = echo0 and loadedMessages = hist0
        and e = MessageComplete]
      unique_ids_preserved [where s = sent0 and t = "''ping''" and cfg = cfg0
        and uuid = "''id-2''" and d = reply0 and loadedMessages = hist0
        and e = MessageComplete]
    by simp
qed

text \<open>
  The claim as it is written fails: the broadcast handler appends an event whose id
  is already in the list. The same agent message delivered twice leaves two messages
  with the id \<open>m-1\<close>.
\<close>

theorem unique_ids_counterexample:
  "distinct (map m_id (messages live0)) \<and>
   map m_id (messages (run cfg0 live0
     [MessageBroadcast ''id-2'' reply0, MessageBroadcast ''id-3'' reply0])) = [''m-1'', ''m-1''] \<and>
   \<not> distinct (map m_id (messages (run cfg0 live0
     [MessageBroadcast ''id-2'' reply0, MessageBroadcast ''id-3'' reply0])))"
proof -
  have "map m_id (messages (run cfg0 live0
     [MessageBroadcast ''id-2'' reply0, MessageBroadcast ''id-3'' reply0])) = [''m-1'', ''m-1'']"
    by (simp add: run_def live0_eq handleMessageBroadcast_def broadcastMessage_def
        reply0_def or_string_def Let_def)
  then show ?thesis
    by (simp add: live0_eq)
qed

section \<open>What an agent reply leaves alone\<close>

text \<open>
  Claim C10. A message-broadcast event classified as agent-originated changes the
  message list and \<open>isAgentThinking\<close> and nothing else: \<open>inputDisabled\<close>, the connection,
  server and agent status and the room id stay as they were. Over all events of the
  component, \<open>inputDisabled\<close> goes from true to false only at an \<open>enable_input\<close> control
  message, at a message-complete event, or when a send timeout runs.
\<close>

theorem agent_reply_frame:
  "(userEntity s \<noteq> Some (d_senderId d) \<and> isAgentMessage cfg d \<longrightarrow>
      handleMessageBroadcast cfg uuid d s =
        s\<lparr>messages := messages s @ [broadcastMessage cfg uuid d s],
          isAgentThinking := False\<rparr> \<and>
      inputDisabled (handleMessageBroadcast cfg uuid d s) = inputDisabled s \<and>
      connectionStatus (handleMessageBroadcast cfg uuid d s) = connectionStatus s \<and>
      serverStatus (handleMessageBroadcast cfg uuid d s) = serverStatus s \<and>
      agentStatus (handleMessageBroadcast cfg uuid d s) = agentStatus s \<and>
      roomId (handleMessageBroadcast cfg uuid d s) = roomId s) \<and>
   (inputDisabled s \<and> \<not> inputDisabled (step cfg s e) \<longrightarrow>
      (\<exists>c. e = ControlMessage c \<and> action c = ''enable_input'') \<or>
      e = MessageComplete \<or>
      (\<exists>dt c due. e = Advance dt c \<and> (due, SendTimeout) \<in> set (timers s) \<and>
         due \<le> clock s + int dt))"
proof -
  have a: "handleMessageBroadcast cfg uuid d s =
             s\<lparr>messages := messages s @ [broadcastMessage cfg uuid d s],
               isAgentThinking := False\<rparr>"
    if "userEntity s \<noteq> Some (d_senderId d)" and "isAgentMessage cfg d"
  proof -
    have "Some (d_senderId d) \<noteq> userEntity s"
      using that(1) by auto
    then show ?thesis
      using that(2) by (simp add: handleMessageBroadcast_def)
  qed
  have b: "(\<exists>c. e = ControlMessage c \<and> action c = ''enable_input'') \<or>
           e = MessageComplete \<or>
           (\<exists>dt c due. e = Advance dt c \<and> (due, SendTimeout) \<in> set (timers s) \<and>
              due \<le> clock s + int dt)"
    if "inputDisabled s" and "\<not> inputDisabled (step cfg s e)"
    using enabling_events [OF that] by blast
  have a': "inputDisabled (handleMessageBroadcast cfg uuid d s) = inputDisabled s \<and>
      connectionStatus (handleMessageBroadcast cfg uuid d s) = connectionStatus s \<and>
      serverStatus (handleMessageBroadcast cfg uuid d s) = serverStatus s \<and>
      agentStatus (handleMessageBroadcast cfg uuid d s) = agentStatus s \<and>
      roomId (handleMessageBroadcast cfg uuid d s) = roomId s"
    if "userEntity s \<noteq> Some (d_senderId d)" and "isAgentMessage cfg d"
    by (simp add: a [OF that])
  from a a' b show ?thesis
    by blast
qed

theorem agent_reply_frame_witness:
  "userEntity sent0 \<noteq> Some (d_senderId reply0) \<and> isAgentMessage cfg0 reply0 \<and>
   inputDisabled sent0 \<and>
   inputDisabled (handleMessageBroadcast cfg0 ''id-2'' reply0 sent0) \<and>
   \<not> isAgentThinking (handleMessageBroadcast cfg0 ''id-2'' reply0 sent0) \<and>
   \<not> inputDisabled (step cfg0 sent0 MessageComplete)"
proof -
  have h1: "userEntity sent0 \<noteq> Some (d_senderId reply0)"
    using sent0_flags by (simp add: reply0_def)
  have h2: "\<not> inputDisabled (step cfg0 sent0 MessageComplete)"
    using sent0_flags by (simp add: handleMessageComplete_def)
  have h3: "isAgentThinking
      (sent0\<lparr>messages := messages sent0 @ [broadcastMessage cfg0 ''id-2'' reply0 sent0],
             isAgentThinking := False\<rparr>) = False"
    by simp
  show ?thesis
    using h1 h2 h3 isAgentMessage_reply0 sent0_flags
      agent_reply_frame [of sent0 reply0 cfg0 "''id-2''" MessageComplete]
    by simp
qed

end
